theory Spec2Isabelle
  imports Complex_Main
begin

section \<open>JavaScript values\<close>

text \<open>
  A JavaScript string is a sequence of UTF-16 code units; a code unit is modelled as a
  natural number. \<open>ascii\<close> turns an ASCII literal into such a sequence.
  A JavaScript number is modelled as an exact rational and its arithmetic is exact: the
  rounding of double precision arithmetic and the infinities are not modelled. Where the
  source can meet \<open>undefined\<close>, \<open>null\<close> or \<open>NaN\<close> the value is an \<open>option\<close>
  with \<open>None\<close> for all three.
\<close>

type_synonym jsstring = "nat list"

definition ascii :: "string \<Rightarrow> jsstring" where
  "ascii s = map of_char s"

text \<open>\<^verbatim>\<open>x || 0\<close> on a number: \<open>undefined\<close>, \<open>NaN\<close> and \<open>0\<close> all give \<open>0\<close>.\<close>

definition orZero :: "rat option \<Rightarrow> rat" where
  "orZero x = (case x of None \<Rightarrow> 0 | Some v \<Rightarrow> v)"

section \<open>The play page: state held in refs\<close>

text \<open>
  The page keeps its mutable state in React refs. The handlers below read and write these
  refs and the player object; everything they do to the outside (a persisted play record,
  a seek, a switch of episode, a pause) is appended to \<open>effects\<close>.
\<close>

record player =
  currentTime :: "rat option"
  duration :: "rat option"

record detail =
  source_name :: jsstring
  year :: jsstring
  poster :: jsstring
  episodes :: "jsstring list"

record playRecord =
  r_title :: jsstring
  r_source_name :: jsstring
  r_year :: jsstring
  r_cover :: jsstring
  r_index :: int
  r_total_episodes :: int
  r_play_time :: int
  r_total_time :: int
  r_save_time :: int
  r_search_title :: jsstring

record skipcfg =
  enable :: bool
  intro_time :: rat
  outro_time :: rat

datatype effect =
    SavePlayRecord jsstring jsstring playRecord
  | Seek rat
  | NextEpisode
  | Pause

record session =
  artPlayerRef :: "player option"
  currentSourceRef :: jsstring
  currentIdRef :: jsstring
  videoTitleRef :: jsstring
  detailRef :: "detail option"
  currentEpisodeIndexRef :: int
  searchTitle :: jsstring
  lastSaveTimeRef :: int
  resumeTimeRef :: "rat option"
  skipConfigRef :: skipcfg
  lastSkipCheckRef :: int
  effects :: "effect list"

subsection \<open>saveCurrentPlayProgress\<close>

text \<open>
  \<open>save_ok\<close> says whether the awaited \<open>savePlayRecord\<close> resolves (a rejection is
  caught and logged); \<open>now1\<close> and \<open>now2\<close> are the two readings of \<open>Date.now()\<close>.
  An empty string stands for every falsy value of a string ref.
\<close>

definition detailSourceName :: "detail option \<Rightarrow> jsstring" where
  "detailSourceName d = (case d of None \<Rightarrow> [] | Some x \<Rightarrow> source_name x)"

definition totalEpisodes :: "detail option \<Rightarrow> int" where
  "totalEpisodes d =
     (case d of None \<Rightarrow> 1
      | Some x \<Rightarrow> (if episodes x = [] then 1 else int (length (episodes x))))"

definition mkPlayRecord :: "session \<Rightarrow> rat \<Rightarrow> rat \<Rightarrow> int \<Rightarrow> playRecord" where
  "mkPlayRecord s ct du now1 =
     \<lparr> r_title = videoTitleRef s,
       r_source_name = detailSourceName (detailRef s),
       r_year = (case detailRef s of None \<Rightarrow> [] | Some x \<Rightarrow> year x),
       r_cover = (case detailRef s of None \<Rightarrow> [] | Some x \<Rightarrow> poster x),
       r_index = currentEpisodeIndexRef s + 1,
       r_total_episodes = totalEpisodes (detailRef s),
       r_play_time = \<lfloor>ct\<rfloor>,
       r_total_time = \<lfloor>du\<rfloor>,
       r_save_time = now1,
       r_search_title = searchTitle s \<rparr>"

definition saveCurrentPlayProgress :: "bool \<Rightarrow> int \<Rightarrow> int \<Rightarrow> session \<Rightarrow> session" where
  "saveCurrentPlayProgress save_ok now1 now2 s =
     (case artPlayerRef s of
        None \<Rightarrow> s
      | Some p \<Rightarrow>
          if currentSourceRef s = [] \<or> currentIdRef s = [] \<or> videoTitleRef s = []
             \<or> detailSourceName (detailRef s) = []
          then s
          else
            let ct = orZero (currentTime p); du = orZero (duration p) in
            if ct < 1 \<or> du = 0 then s
            else if save_ok
              then s\<lparr> effects := effects s @
                         [SavePlayRecord (currentSourceRef s) (currentIdRef s)
                            (mkPlayRecord s ct du now1)],
                       lastSaveTimeRef := now2 \<rparr>
              else s)"

subsection \<open>The \<open>video:canplay\<close> handler: resuming playback\<close>

text \<open>
  The part of the handler that restores the play position. A pending resume time is a
  truthy number above \<open>0\<close>. The assignment to the player's \<open>currentTime\<close> is the
  seek; it is recorded in \<open>effects\<close>. The ref is reset to \<open>null\<close> on every call.
  Without a player object the read of \<open>duration\<close> throws inside the \<open>try\<close> and
  no seek happens.
\<close>

definition resumeTarget :: "rat \<Rightarrow> rat \<Rightarrow> rat" where
  "resumeTarget du t = (if du \<noteq> 0 \<and> t \<ge> du - 2 then max 0 (du - 5) else t)"

definition onCanplay :: "session \<Rightarrow> session" where
  "onCanplay s =
     (let s1 =
        (case resumeTimeRef s of
           None \<Rightarrow> s
         | Some t \<Rightarrow>
             if t > 0 then
               (case artPlayerRef s of
                  None \<Rightarrow> s
                | Some p \<Rightarrow>
                    let target = resumeTarget (orZero (duration p)) t in
                    s\<lparr> artPlayerRef := Some (p\<lparr> currentTime := Some target \<rparr>),
                       effects := effects s @ [Seek target] \<rparr>)
             else s)
      in s1\<lparr> resumeTimeRef := None \<rparr>)"

subsection \<open>The \<open>video:timeupdate\<close> handler: skipping intro and outro\<close>

text \<open>
  \<open>now\<close> is the reading of \<open>Date.now()\<close>. The handler reads \<open>currentTime\<close> and
  \<open>duration\<close> once, before the rate limit; the outro test uses that first reading even
  after the intro seek. \<open>handleNextEpisode\<close> and \<open>pause\<close> are recorded as effects.
\<close>

definition skipIntro :: "player \<Rightarrow> rat \<Rightarrow> session \<Rightarrow> session" where
  "skipIntro p ct s =
     (let cfg = skipConfigRef s in
      if intro_time cfg > 0 \<and> ct < intro_time cfg
      then s\<lparr> artPlayerRef := Some (p\<lparr> currentTime := Some (intro_time cfg) \<rparr>),
              effects := effects s @ [Seek (intro_time cfg)] \<rparr>
      else s)"

definition skipOutro :: "rat \<Rightarrow> rat \<Rightarrow> session \<Rightarrow> session" where
  "skipOutro ct du s =
     (let cfg = skipConfigRef s in
      if outro_time cfg < 0 \<and> du > 0 \<and> ct > du + outro_time cfg
      then (if currentEpisodeIndexRef s < totalEpisodes (detailRef s) - 1
            then s\<lparr> effects := effects s @ [NextEpisode] \<rparr>
            else s\<lparr> effects := effects s @ [Pause] \<rparr>)
      else s)"

definition onTimeUpdateSkip :: "int \<Rightarrow> session \<Rightarrow> session" where
  "onTimeUpdateSkip now s =
     (if \<not> enable (skipConfigRef s) then s
      else case artPlayerRef s of
        None \<Rightarrow> s
      | Some p \<Rightarrow>
          let ct = orZero (currentTime p); du = orZero (duration p) in
          if now - lastSkipCheckRef s < 1500 then s
          else skipOutro ct du (skipIntro p ct (s\<lparr> lastSkipCheckRef := now \<rparr>)))"

text \<open>
  A run of time-update events: each event carries the clock reading and what the player
  reports at that moment.
\<close>

fun timeUpdates :: "(int \<times> player) list \<Rightarrow> session \<Rightarrow> session" where
  "timeUpdates [] s = s"
| "timeUpdates ((now, p) # evs) s =
     timeUpdates evs
       (onTimeUpdateSkip now
          (case artPlayerRef s of None \<Rightarrow> s | Some _ \<Rightarrow> s\<lparr> artPlayerRef := Some p \<rparr>))"

text \<open>What the page did since an earlier state: the effects added, and the seeks among them.\<close>

definition newEffects :: "session \<Rightarrow> session \<Rightarrow> effect list" where
  "newEffects s s' = drop (length (effects s)) (effects s')"

fun isSeek :: "effect \<Rightarrow> bool" where
  "isSeek (Seek _) = True"
| "isSeek _ = False"

text \<open>A session used to run the handlers on concrete inputs.\<close>

definition demoSession :: "rat option \<Rightarrow> rat option \<Rightarrow> session" where
  "demoSession ct du =
     \<lparr> artPlayerRef = Some \<lparr> currentTime = ct, duration = du \<rparr>,
       currentSourceRef = ascii ''src'',
       currentIdRef = ascii ''42'',
       videoTitleRef = ascii ''Title'',
       detailRef = Some \<lparr> source_name = ascii ''Source'', year = ascii ''2024'',
                           poster = [], episodes = [ascii ''a'', ascii ''b''] \<rparr>,
       currentEpisodeIndexRef = 0,
       searchTitle = [],
       lastSaveTimeRef = 0,
       resumeTimeRef = None,
       skipConfigRef = \<lparr> enable = True, intro_time = 90, outro_time = 0 \<rparr>,
       lastSkipCheckRef = 0,
       effects = [] \<rparr>"


section \<open>Source selection\<close>

subsection \<open>Probe results and the speed string\<close>

record testResult =
  quality :: jsstring
  loadSpeed :: jsstring
  pingTime :: rat

record searchResult =
  source :: jsstring
  id :: jsstring
  sr_source_name :: jsstring
  sr_episodes :: "jsstring list"

text \<open>The two sentinel values of \<open>loadSpeed\<close>: "unknown" and "measuring...", in Chinese.\<close>

definition speedUnknown :: jsstring where
  "speedUnknown = [0x672A, 0x77E5]"

definition speedMeasuring :: jsstring where
  "speedMeasuring = [0x6D4B, 0x91CF, 0x4E2D, 46, 46, 46]"

definition isDigit :: "nat \<Rightarrow> bool" where
  "isDigit c = (48 \<le> c \<and> c \<le> 57)"

definition isDigitDot :: "nat \<Rightarrow> bool" where
  "isDigitDot c = (isDigit c \<or> c = 46)"

text \<open>The class \<^verbatim>\<open>\s\<close> of a JavaScript regular expression, and of \<open>parseInt\<close>'s trimming.\<close>

definition isSpace :: "nat \<Rightarrow> bool" where
  "isSpace c = (c \<in> {9, 10, 11, 12, 13, 32, 160, 5760, 8232, 8233, 8239, 8287, 12288, 65279}
                \<or> (8192 \<le> c \<and> c \<le> 8202))"

definition digitsValue :: "jsstring \<Rightarrow> nat" where
  "digitsValue ds = foldl (\<lambda>a c. 10 * a + (c - 48)) 0 ds"

text \<open>
  The regular expression \<^verbatim>\<open>/^([\d.]+)\s*(KB\/s|MB\/s)$/\<close>: a non-empty run of digits and
  dots, any white space, then one of the two units up to the end. Neither white space nor
  a unit starts with a digit or a dot, and no unit starts with white space, so the
  greedy groups are the longest runs. The result is the pair of the two groups.
\<close>

definition matchSpeed :: "jsstring \<Rightarrow> (jsstring \<times> jsstring) option" where
  "matchSpeed s =
     (let num = takeWhile isDigitDot s;
          unit = dropWhile isSpace (dropWhile isDigitDot s)
      in if num \<noteq> [] \<and> (unit = ascii ''KB/s'' \<or> unit = ascii ''MB/s'')
         then Some (num, unit) else None)"

text \<open>
  \<open>parseFloat\<close> on a string of digits and dots (all that group 1 can be): the longest
  prefix that is a decimal literal, \<open>NaN\<close> (here \<open>None\<close>) when there is none, as for
  \<^verbatim>\<open>"."\<close>. The value is the exact decimal.
\<close>

definition parseFloat :: "jsstring \<Rightarrow> rat option" where
  "parseFloat s =
     (let ip = takeWhile isDigit s;
          fp = (case dropWhile isDigit s of
                  [] \<Rightarrow> []
                | c # cs \<Rightarrow> if c = 46 then takeWhile isDigit cs else [])
      in if ip = [] \<and> fp = [] then None
         else Some (of_nat (digitsValue ip) + of_nat (digitsValue fp) / 10 ^ length fp))"

subsection \<open>calculateSourceScore\<close>

definition qualityScore :: "jsstring \<Rightarrow> rat" where
  "qualityScore q =
     (if q = ascii ''4K'' then 100
      else if q = ascii ''2K'' then 85
      else if q = ascii ''1080p'' then 75
      else if q = ascii ''720p'' then 60
      else if q = ascii ''480p'' then 40
      else if q = ascii ''SD'' then 20
      else 0)"

text \<open>
  \<open>None\<close> is \<open>NaN\<close>. A division by \<open>maxSpeed = 0\<close> gives an infinity or \<open>NaN\<close> in
  JavaScript; the clamp sends the infinities to \<open>100\<close> and \<open>0\<close>. This is written out,
  since HOL's \<open>x / 0\<close> is \<open>0\<close>.
\<close>

definition speedScore :: "jsstring \<Rightarrow> rat \<Rightarrow> rat option" where
  "speedScore speedStr maxSpeed =
     (if speedStr = speedUnknown \<or> speedStr = speedMeasuring then Some 30
      else case matchSpeed speedStr of
        None \<Rightarrow> Some 30
      | Some (num, unit) \<Rightarrow>
          (case parseFloat num of
             None \<Rightarrow> None
           | Some v \<Rightarrow>
               let speedKBps = (if unit = ascii ''MB/s'' then v * 1024 else v) in
               if maxSpeed = 0
               then (if speedKBps = 0 then None else if 0 < speedKBps then Some 100 else Some 0)
               else let speedRatio = speedKBps / maxSpeed
                    in Some (min 100 (max 0 (speedRatio * 100)))))"

definition pingScore :: "rat \<Rightarrow> rat \<Rightarrow> rat \<Rightarrow> rat" where
  "pingScore ping minPing maxPing =
     (if ping \<le> 0 then 0
      else if maxPing = minPing then 100
      else let pingRatio = (maxPing - ping) / (maxPing - minPing)
           in min 100 (max 0 (pingRatio * 100)))"

text \<open>\<open>Math.round(x * 100) / 100\<close>; \<open>Math.round\<close> rounds halves up.\<close>

definition round2 :: "rat \<Rightarrow> rat" where
  "round2 x = of_int \<lfloor>x * 100 + 1 / 2\<rfloor> / 100"

definition calculateSourceScore :: "testResult \<Rightarrow> rat \<Rightarrow> rat \<Rightarrow> rat \<Rightarrow> rat option" where
  "calculateSourceScore tr maxSpeed minPing maxPing =
     (case speedScore (loadSpeed tr) maxSpeed of
        None \<Rightarrow> None
      | Some sp \<Rightarrow>
          Some (round2 (0 + qualityScore (quality tr) * (4 / 10) + sp * (4 / 10)
                          + pingScore (pingTime tr) minPing maxPing * (2 / 10))))"

subsection \<open>preferBestSource\<close>

text \<open>
  \<open>probe\<close> stands for \<open>getVideoResolutionFromM3u8\<close>, which is not part of the page:
  \<open>None\<close> when it rejects. A source without episodes, or whose probe rejects, gives
  \<open>null\<close>.
\<close>

definition probeSource ::
  "(jsstring \<Rightarrow> testResult option) \<Rightarrow> searchResult \<Rightarrow> (searchResult \<times> testResult) option" where
  "probeSource probe src =
     (if sr_episodes src = [] then None
      else let episodeUrl = (if length (sr_episodes src) > 1 then sr_episodes src ! 1
                             else sr_episodes src ! 0)
           in case probe episodeUrl of None \<Rightarrow> None | Some tr \<Rightarrow> Some (src, tr))"

text \<open>The loop over the two batches; \<open>Math.ceil(n / 2)\<close> is \<open>(n + 1) div 2\<close>.\<close>

function probeBatches ::
  "(jsstring \<Rightarrow> testResult option) \<Rightarrow> searchResult list \<Rightarrow> nat
     \<Rightarrow> (searchResult \<times> testResult) option list \<Rightarrow> (searchResult \<times> testResult) option list" where
  "probeBatches probe sources start allResults =
     (let batchSize = (length sources + 1) div 2 in
      if start < length sources
      then probeBatches probe sources (start + batchSize)
             (allResults @ map (probeSource probe) (take batchSize (drop start sources)))
      else allResults)"
  by pat_completeness auto
termination
  by (relation "measure (\<lambda>(probe, sources, start, allResults). length sources - start)") auto

text \<open>
  The speed used for the batch maximum: \<open>0\<close> for the sentinels and for a string that does
  not match, \<open>NaN\<close> when \<open>parseFloat\<close> fails.
\<close>

definition speedOf :: "jsstring \<Rightarrow> rat option" where
  "speedOf speedStr =
     (if speedStr = speedUnknown \<or> speedStr = speedMeasuring then Some 0
      else case matchSpeed speedStr of
        None \<Rightarrow> Some 0
      | Some (num, unit) \<Rightarrow>
          (case parseFloat num of
             None \<Rightarrow> None
           | Some v \<Rightarrow> Some (if unit = ascii ''MB/s'' then v * 1024 else v)))"

definition validSpeeds :: "(searchResult \<times> testResult) list \<Rightarrow> rat list" where
  "validSpeeds rs =
     filter (\<lambda>speed. speed > 0)
       (List.map_filter (\<lambda>r. speedOf (loadSpeed (snd r))) rs)"

definition validPings :: "(searchResult \<times> testResult) list \<Rightarrow> rat list" where
  "validPings rs = filter (\<lambda>ping. ping > 0) (map (\<lambda>r. pingTime (snd r)) rs)"

text \<open>\<open>Math.max(...xs)\<close> and \<open>Math.min(...xs)\<close>, called on non-empty arrays only.\<close>

fun maxOf :: "rat list \<Rightarrow> rat" where
  "maxOf [] = 0"
| "maxOf (x # xs) = fold max xs x"

fun minOf :: "rat list \<Rightarrow> rat" where
  "minOf [] = 0"
| "minOf (x # xs) = fold min xs x"

definition maxSpeedOf :: "(searchResult \<times> testResult) list \<Rightarrow> rat" where
  "maxSpeedOf rs = (if validSpeeds rs \<noteq> [] then maxOf (validSpeeds rs) else 1024)"

definition minPingOf :: "(searchResult \<times> testResult) list \<Rightarrow> rat" where
  "minPingOf rs = (if validPings rs \<noteq> [] then minOf (validPings rs) else 50)"

definition maxPingOf :: "(searchResult \<times> testResult) list \<Rightarrow> rat" where
  "maxPingOf rs = (if validPings rs \<noteq> [] then maxOf (validPings rs) else 1000)"

definition scoreIn :: "(searchResult \<times> testResult) list \<Rightarrow> searchResult \<times> testResult \<Rightarrow> rat option" where
  "scoreIn rs r = calculateSourceScore (snd r) (maxSpeedOf rs) (minPingOf rs) (maxPingOf rs)"

text \<open>
  The outcome of the selection. \<open>NoSource\<close> is \<open>sources[0]\<close> of an empty array.
  \<open>Array.prototype.sort\<close> is stable, so with the comparator \<open>b.score - a.score\<close> it is
  the stable sort by descending score, \<open>sort_key\<close> on the negated score. That holds as
  long as no score is \<open>NaN\<close>: a comparator that returns \<open>NaN\<close> is not a consistent
  comparison and the order is then left to the engine, which is \<open>EngineDefined\<close>. The
  page also stores the probe results for the episode selector; no property below reads
  them and they are left out.
\<close>

datatype selection = Selected searchResult | NoSource | EngineDefined

definition preferBestSource ::
  "(jsstring \<Rightarrow> testResult option) \<Rightarrow> searchResult list \<Rightarrow> selection" where
  "preferBestSource probe sources =
     (if length sources = 1 then Selected (sources ! 0)
      else
        let allResults = probeBatches probe sources 0 [];
            successfulResults = List.map_filter (\<lambda>r. r) allResults
        in if successfulResults = []
           then (case sources of [] \<Rightarrow> NoSource | first # _ \<Rightarrow> Selected first)
           else if \<exists>r \<in> set successfulResults. scoreIn successfulResults r = None
           then EngineDefined
           else Selected (fst (hd (sort_key (\<lambda>r. - the (scoreIn successfulResults r))
                                     successfulResults))))"


text \<open>Sources and probes used to run the selection on concrete inputs.\<close>

definition demoSource :: "string \<Rightarrow> jsstring list \<Rightarrow> searchResult" where
  "demoSource name eps =
     \<lparr> source = ascii name, id = ascii ''1'', sr_source_name = ascii name, sr_episodes = eps \<rparr>"

definition failingProbe :: "jsstring \<Rightarrow> testResult option" where
  "failingProbe url = None"


subsection \<open>The score as the specification words it\<close>














section \<open>Fatal stream errors\<close>

text \<open>
  The listener for \<open>Hls.Events.ERROR\<close>. The error classes are those of the streaming
  library; the listener names two of them and treats the others alike. It calls one
  method of the \<open>hls\<close> object for a fatal error and none for any other; it keeps no
  count and reads no clock.
\<close>

datatype ErrorTypes = NETWORK_ERROR | MEDIA_ERROR | KEY_SYSTEM_ERROR | MUX_ERROR | OTHER_ERROR







section \<open>Removing advertisements from a manifest\<close>

text \<open>\<open>s.split('\n')\<close> and \<open>lines.join('\n')\<close>; the line feed is code unit 10.\<close>

fun splitLines :: "jsstring \<Rightarrow> jsstring list" where
  "splitLines [] = [[]]"
| "splitLines (c # cs) =
     (if c = 10 then [] # splitLines cs
      else (case splitLines cs of [] \<Rightarrow> [[c]] | l # ls \<Rightarrow> (c # l) # ls))"

fun joinLines :: "jsstring list \<Rightarrow> jsstring" where
  "joinLines [] = []"
| "joinLines [l] = l"
| "joinLines (l # ls) = l @ 10 # joinLines ls"

text \<open>\<open>s.includes(pat)\<close>: \<open>pat\<close> occurs in \<open>s\<close> at some position.\<close>

fun includes_js :: "jsstring \<Rightarrow> jsstring \<Rightarrow> bool" where
  "includes_js [] pat = (pat = [])"
| "includes_js (c # cs) pat = (take (length pat) (c # cs) = pat \<or> includes_js cs pat)"

definition hasDiscontinuity :: "jsstring \<Rightarrow> bool" where
  "hasDiscontinuity line = includes_js line (ascii ''#EXT-X-DISCONTINUITY'')"

definition isRuyiAd :: "jsstring \<Rightarrow> bool" where
  "isRuyiAd line =
     (includes_js line (ascii ''EXTINF:5.640000'') \<or>
      includes_js line (ascii ''EXTINF:2.960000'') \<or>
      includes_js line (ascii ''EXTINF:3.480000'') \<or>
      includes_js line (ascii ''EXTINF:4.000000'') \<or>
      includes_js line (ascii ''EXTINF:0.960000'') \<or>
      includes_js line (ascii ''EXTINF:10.000000'') \<or>
      includes_js line (ascii ''EXTINF:1.266667''))"

text \<open>
  The loop of the default rule, from the current line on: \<open>nextdelete\<close> is the flag of the
  source, the result is what the loop still pushes onto \<open>filteredLines\<close>.
\<close>

fun filterLines :: "bool \<Rightarrow> jsstring \<Rightarrow> jsstring list \<Rightarrow> jsstring list" where
  "filterLines nextdelete type [] = []"
| "filterLines nextdelete type (line # lines) =
     (if nextdelete then filterLines False type lines
      else if \<not> hasDiscontinuity line then
        (if type = ascii ''ruyi'' \<and> isRuyiAd line then filterLines True type lines
         else line # filterLines False type lines)
      else filterLines False type lines)"

definition defaultAdFilter :: "jsstring \<Rightarrow> jsstring \<Rightarrow> jsstring" where
  "defaultAdFilter type m3u8Content =
     (if m3u8Content = [] then []
      else joinLines (filterLines False type (splitLines m3u8Content)))"

text \<open>
  \<open>custom\<close> is the cached custom filter: \<open>None\<close> when \<open>customAdFilterCodeRef\<close> is
  empty or blank, else the function compiled from it, which gives \<open>None\<close> when compiling
  or running it throws; the default rule then takes over.
\<close>

definition filterAdsFromM3U8 ::
  "(jsstring \<Rightarrow> jsstring \<Rightarrow> jsstring option) option \<Rightarrow> jsstring \<Rightarrow> jsstring \<Rightarrow> jsstring" where
  "filterAdsFromM3U8 custom type m3u8Content =
     (case custom of
        None \<Rightarrow> defaultAdFilter type m3u8Content
      | Some customFunction \<Rightarrow>
          (case customFunction type m3u8Content of
             Some filtered \<Rightarrow> filtered
           | None \<Rightarrow> defaultAdFilter type m3u8Content))"

subsection \<open>Which lines the default rule removes\<close>

text \<open>
  The reading of the specification: a line goes when it holds the discontinuity marker
  or, for the provider \<open>ruyi\<close>, when it or the line before it holds a filler marker.
\<close>

definition spec_removed :: "jsstring \<Rightarrow> jsstring list \<Rightarrow> nat \<Rightarrow> bool" where
  "spec_removed type lines i =
     (hasDiscontinuity (lines ! i)
      \<or> (type = ascii ''ruyi''
          \<and> (isRuyiAd (lines ! i) \<or> (0 < i \<and> isRuyiAd (lines ! (i - 1))))))"

definition spec_default_filter :: "jsstring \<Rightarrow> jsstring \<Rightarrow> jsstring" where
  "spec_default_filter type text =
     (let lines = splitLines text in
      joinLines (map (\<lambda>i. lines ! i)
                   (filter (\<lambda>i. \<not> spec_removed type lines i) [0..<length lines])))"

text \<open>
  What the loop does: a filler marker counts only on a line that the scan reaches, one
  that neither follows a counted marker line nor holds the discontinuity marker.
\<close>

definition fillerHit :: "jsstring \<Rightarrow> jsstring \<Rightarrow> bool" where
  "fillerHit type line = (\<not> hasDiscontinuity line \<and> type = ascii ''ruyi'' \<and> isRuyiAd line)"

fun matchedAt :: "jsstring \<Rightarrow> jsstring list \<Rightarrow> nat \<Rightarrow> bool" where
  "matchedAt type lines 0 = fillerHit type (lines ! 0)"
| "matchedAt type lines (Suc i) = (fillerHit type (lines ! Suc i) \<and> \<not> matchedAt type lines i)"

definition removedAt :: "jsstring \<Rightarrow> jsstring list \<Rightarrow> nat \<Rightarrow> bool" where
  "removedAt type lines i =
     (hasDiscontinuity (lines ! i) \<or> matchedAt type lines i
      \<or> (0 < i \<and> matchedAt type lines (i - 1)))"

definition keptLines :: "jsstring \<Rightarrow> jsstring list \<Rightarrow> jsstring list" where
  "keptLines type lines =
     map (\<lambda>i. lines ! i) (filter (\<lambda>i. \<not> removedAt type lines i) [0..<length lines])"


text \<open>
  A manifest for the provider \<open>ruyi\<close> in which two filler marker lines follow each other
  before a segment address.
\<close>

definition fillerLine :: jsstring where
  "fillerLine = ascii ''#EXTINF:5.640000,''"

definition segmentLine :: jsstring where
  "segmentLine = ascii ''seg.ts''"

definition demoManifest :: jsstring where
  "demoManifest = joinLines [fillerLine, fillerLine, segmentLine]"


section \<open>parseInt\<close>

text \<open>
  \<open>parseInt(string, radix)\<close> of the language: leading white space and one sign are
  dropped; a radix other than \<open>0\<close> and outside \<open>2..36\<close> gives \<open>NaN\<close>; without a
  radix (\<open>None\<close>, \<open>undefined\<close>) the radix is 10, or 16 after a prefix \<open>0x\<close>, which
  radix 16 also allows; the longest run of digits of the radix is the number, and no digit
  at all gives \<open>NaN\<close> (\<open>None\<close>). The first argument is the string the value is converted
  to. The result is the exact integer.
\<close>

definition digitVal :: "nat \<Rightarrow> nat option" where
  "digitVal c =
     (if 48 \<le> c \<and> c \<le> 57 then Some (c - 48)
      else if 97 \<le> c \<and> c \<le> 122 then Some (c - 87)
      else if 65 \<le> c \<and> c \<le> 90 then Some (c - 55)
      else None)"

definition isRadixDigit :: "nat \<Rightarrow> nat \<Rightarrow> bool" where
  "isRadixDigit R c = (case digitVal c of None \<Rightarrow> False | Some v \<Rightarrow> v < R)"

definition radixValue :: "nat \<Rightarrow> jsstring \<Rightarrow> nat" where
  "radixValue R ds = foldl (\<lambda>a c. R * a + (case digitVal c of None \<Rightarrow> 0 | Some v \<Rightarrow> v)) 0 ds"

definition parseInt :: "jsstring \<Rightarrow> nat option \<Rightarrow> int option" where
  "parseInt string radix =
     (let S = dropWhile isSpace string;
          sign = (if take 1 S = [45] then - 1 else (1::int));
          S1 = (if take 1 S = [43] \<or> take 1 S = [45] then drop 1 S else S);
          R0 = (case radix of None \<Rightarrow> 0 | Some r \<Rightarrow> r)
      in if R0 \<noteq> 0 \<and> (R0 < 2 \<or> 36 < R0) then None
         else
           let stripPrefix = (R0 = 0 \<or> R0 = 16);
               hasPrefix = (stripPrefix \<and> (take 2 S1 = ascii ''0x'' \<or> take 2 S1 = ascii ''0X''));
               S2 = (if hasPrefix then drop 2 S1 else S1);
               R = (if hasPrefix then 16 else if R0 = 0 then 10 else R0);
               Z = takeWhile (isRadixDigit R) S2
           in if Z = [] then None else Some (sign * int (radixValue R Z)))"

section \<open>The danmaku cache\<close>

text \<open>
  \<open>windowDefined\<close> tells the browser from the server; \<open>envExpireMinutes\<close> is the value
  of \<open>NEXT_PUBLIC_DANMAKU_CACHE_EXPIRE_MINUTES\<close>, \<open>None\<close> when it is not set. The
  expire time is in milliseconds.
\<close>

record cacheEnv =
  windowDefined :: bool
  envExpireMinutes :: "jsstring option"

definition getDanmakuCacheExpireTime :: "cacheEnv \<Rightarrow> int" where
  "getDanmakuCacheExpireTime env =
     (if \<not> windowDefined env then 4320 * 60 * 1000
      else case envExpireMinutes env of
        None \<Rightarrow> 4320 * 60 * 1000
      | Some envValue \<Rightarrow>
          if envValue = [] then 4320 * 60 * 1000
          else (case parseInt envValue (Some 10) of
                  None \<Rightarrow> 4320 * 60 * 1000
                | Some minutes \<Rightarrow>
                    if minutes = 0 then 0
                    else if minutes > 0 then minutes * 60 * 1000
                    else 4320 * 60 * 1000))"

text \<open>
  The IndexedDB store, keyed by \<open>episodeId\<close>, holding the comments and the time stamp;
  \<open>opened\<close> counts the calls of \<open>openDB\<close>. \<open>openOk\<close> and \<open>requestOk\<close> say whether
  opening the database and the request on the object store succeed. A failure to open is
  rethrown by \<open>saveDanmakuToCache\<close> and turned into \<open>null\<close> by
  \<open>getDanmakuFromCache\<close>; a failed request rejects the promise either function returns.
\<close>

record 'c danmakuDb =
  store :: "int \<rightharpoonup> ('c list \<times> int)"
  opened :: nat

datatype cacheError = OpenFailed | RequestFailed

definition saveDanmakuToCache ::
  "cacheEnv \<Rightarrow> bool \<Rightarrow> bool \<Rightarrow> int \<Rightarrow> int \<Rightarrow> 'c list \<Rightarrow> 'c danmakuDb
     \<Rightarrow> (cacheError + unit) \<times> 'c danmakuDb" where
  "saveDanmakuToCache env openOk requestOk now episodeId comments db =
     (let expireTime = getDanmakuCacheExpireTime env in
      if expireTime = 0 then (Inr (), db)
      else
        let db1 = db\<lparr> opened := opened db + 1 \<rparr> in
        if \<not> openOk then (Inl OpenFailed, db1)
        else if \<not> requestOk then (Inl RequestFailed, db1)
        else (Inr (), db1\<lparr> store := (store db1)(episodeId \<mapsto> (comments, now)) \<rparr>))"

definition getDanmakuFromCache ::
  "cacheEnv \<Rightarrow> bool \<Rightarrow> bool \<Rightarrow> int \<Rightarrow> int \<Rightarrow> 'c danmakuDb
     \<Rightarrow> (cacheError + 'c list option) \<times> 'c danmakuDb" where
  "getDanmakuFromCache env openOk requestOk now episodeId db =
     (let expireTime = getDanmakuCacheExpireTime env in
      if expireTime = 0 then (Inr None, db)
      else
        let db1 = db\<lparr> opened := opened db + 1 \<rparr> in
        if \<not> openOk then (Inr None, db1)
        else if \<not> requestOk then (Inl RequestFailed, db1)
        else (case store db1 episodeId of
                None \<Rightarrow> (Inr None, db1)
              | Some (comments, timestamp) \<Rightarrow>
                  let age = now - timestamp in
                  if age > getDanmakuCacheExpireTime env then (Inr None, db1)
                  else (Inr (Some comments), db1)))"

definition browserEnv :: "string \<Rightarrow> cacheEnv" where
  "browserEnv v = \<lparr> windowDefined = True, envExpireMinutes = Some (ascii v) \<rparr>"

definition demoDb :: "nat danmakuDb" where
  "demoDb = \<lparr> store = [7 \<mapsto> ([1, 2, 3], 1700000000000)], opened = 0 \<rparr>"

section \<open>The admin endpoint for the OpenList configuration\<close>
















section \<open>Progress persistence\<close>

lemma saveCurrentPlayProgress_writes:
  assumes "artPlayerRef s = Some p"
    and "currentSourceRef s \<noteq> []" and "currentIdRef s \<noteq> []" and "videoTitleRef s \<noteq> []"
    and "detailSourceName (detailRef s) \<noteq> []"
    and "currentTime p = Some ct" and "1 \<le> ct"
    and "duration p = Some du" and "du \<noteq> 0"
  shows "effects (saveCurrentPlayProgress True now1 now2 s) =
           effects s @ [SavePlayRecord (currentSourceRef s) (currentIdRef s)
                          (mkPlayRecord s ct du now1)]"
  using assms by (simp add: saveCurrentPlayProgress_def orZero_def Let_def)

text \<open>
  Claim C6. A progress record is never persisted when the current play time is below one
  second or the total duration is unknown: whenever the player's \<open>currentTime\<close> (read as
  \<open>0\<close> when missing) is below \<open>1\<close>, or its \<open>duration\<close> is \<open>0\<close>, \<open>undefined\<close> or
  \<open>NaN\<close>, \<open>saveCurrentPlayProgress\<close> returns the session as it was: nothing is written
  and the time of the last save is not touched.
\<close>

theorem C6_no_progress_saved_when_short_or_unknown:
  assumes "artPlayerRef s = Some p"
    and "orZero (currentTime p) < 1 \<or> orZero (duration p) = 0"
  shows "saveCurrentPlayProgress save_ok now1 now2 s = s"
  using assms by (auto simp add: saveCurrentPlayProgress_def Let_def)

theorem C6_witness:
  "artPlayerRef (demoSession (Some (1/2)) (Some 100))
     = Some \<lparr> currentTime = Some (1/2), duration = Some 100 \<rparr>
   \<and> orZero (Some (1/2)) < 1
   \<and> saveCurrentPlayProgress True 5 6 (demoSession (Some (1/2)) (Some 100))
       = demoSession (Some (1/2)) (Some 100)"
  using C6_no_progress_saved_when_short_or_unknown
          [of "demoSession (Some (1/2)) (Some 100)"
              "\<lparr> currentTime = Some (1/2), duration = Some 100 \<rparr>" True 5 6]
  by (simp add: demoSession_def orZero_def)


section \<open>Resuming at the stored position\<close>

text \<open>
  Claim C4 as stated fails: with a duration of 3 seconds and a resume target of 2 seconds
  the target is within 2 seconds of the end, yet the seek goes to \<open>0\<close>, not to
  \<open>duration - 5 = -2\<close>.
\<close>

theorem C4_counterexample:
  "(3::rat) - 2 \<le> 2
   \<and> newEffects ((demoSession None (Some 3))\<lparr> resumeTimeRef := Some 2 \<rparr>)
        (onCanplay ((demoSession None (Some 3))\<lparr> resumeTimeRef := Some 2 \<rparr>))
       \<noteq> [Seek (3 - 5)]"
  by (simp add: onCanplay_def resumeTarget_def newEffects_def Let_def demoSession_def
        orZero_def)

text \<open>
  Claim C4, amended. If a resume target is pending (a number above \<open>0\<close>) when the player
  signals that it can play, the duration is known (not \<open>0\<close>, \<open>undefined\<close> or \<open>NaN\<close>)
  and the target is within 2 seconds of it (\<open>target \<ge> duration - 2\<close>), then exactly one
  seek is applied, to \<open>max 0 (duration - 5)\<close>; the resume target is cleared afterwards,
  so that a second can-play signal applies no seek at all.
\<close>

theorem C4_resume_seek_clamped:
  assumes "resumeTimeRef s = Some t" and "0 < t"
    and "artPlayerRef s = Some p" and "orZero (duration p) = du" and "du \<noteq> 0"
    and "du - 2 \<le> t"
  shows "newEffects s (onCanplay s) = [Seek (max 0 (du - 5))]
       \<and> resumeTimeRef (onCanplay s) = None
       \<and> newEffects (onCanplay s) (onCanplay (onCanplay s)) = []"
  using assms by (simp add: onCanplay_def resumeTarget_def newEffects_def Let_def)

theorem C4_witness:
  "resumeTimeRef ((demoSession None (Some 100))\<lparr> resumeTimeRef := Some 99 \<rparr>) = Some 99
   \<and> (0::rat) < 99 \<and> (100::rat) \<noteq> 0 \<and> (100::rat) - 2 \<le> 99
   \<and> newEffects ((demoSession None (Some 100))\<lparr> resumeTimeRef := Some 99 \<rparr>)
        (onCanplay ((demoSession None (Some 100))\<lparr> resumeTimeRef := Some 99 \<rparr>))
       = [Seek 95]
   \<and> resumeTimeRef (onCanplay ((demoSession None (Some 100))\<lparr> resumeTimeRef := Some 99 \<rparr>))
       = None"
  using C4_resume_seek_clamped
          [of "(demoSession None (Some 100))\<lparr> resumeTimeRef := Some 99 \<rparr>" 99
              "\<lparr> currentTime = None, duration = Some 100 \<rparr>" 100]
  by (simp add: demoSession_def orZero_def)

section \<open>Skipping the intro\<close>

lemma timeUpdates_limited:
  assumes "\<forall>e \<in> set evs. fst e - lastSkipCheckRef s < 1500"
  shows "effects (timeUpdates evs s) = effects s
       \<and> lastSkipCheckRef (timeUpdates evs s) = lastSkipCheckRef s"
  using assms
proof (induction evs arbitrary: s)
  case Nil
  then show ?case by simp
next
  case (Cons e evs)
  obtain now p where e: "e = (now, p)" by (cases e)
  let ?s0 = "(case artPlayerRef s of None \<Rightarrow> s | Some _ \<Rightarrow> s\<lparr> artPlayerRef := Some p \<rparr>)"
  have lim: "now - lastSkipCheckRef s < 1500" using Cons.prems e by simp
  have l0: "lastSkipCheckRef ?s0 = lastSkipCheckRef s" and e0: "effects ?s0 = effects s"
    by (simp_all split: option.splits)
  have step: "onTimeUpdateSkip now ?s0 = ?s0"
    using lim l0 by (simp add: onTimeUpdateSkip_def Let_def split: option.splits)
  have "\<forall>e \<in> set evs. fst e - lastSkipCheckRef ?s0 < 1500" using Cons.prems l0 by simp
  from Cons.IH[OF this] show ?case using e step l0 e0 by simp
qed

text \<open>
  Claim C7. With the skip configuration enabled and \<open>intro_time > 0\<close>, a time update that
  reports a position below \<open>intro_time\<close> and passes the rate limit (at least 1500 ms since
  the last skip check, as on the first time update of a page) issues exactly one seek, to
  \<open>intro_time\<close>; and whatever time updates arrive less than 1500 ms after it, whatever
  the player reports then, trigger no further action: no seek, no switch of episode, no
  pause.
\<close>

theorem C7_skip_intro_once_per_window:
  assumes "enable (skipConfigRef s)" and "0 < intro_time (skipConfigRef s)"
    and "artPlayerRef s = Some p"
    and "orZero (currentTime p) < intro_time (skipConfigRef s)"
    and "1500 \<le> now - lastSkipCheckRef s"
    and "\<forall>e \<in> set evs. fst e - now < 1500"
  shows "filter isSeek (newEffects s (onTimeUpdateSkip now s))
           = [Seek (intro_time (skipConfigRef s))]
       \<and> newEffects (onTimeUpdateSkip now s)
            (timeUpdates evs (onTimeUpdateSkip now s)) = []"
proof -
  let ?s1 = "onTimeUpdateSkip now s"
  have l1: "lastSkipCheckRef ?s1 = now"
    using assms(1-5) by (simp add: onTimeUpdateSkip_def skipIntro_def skipOutro_def Let_def)
  have a: "filter isSeek (newEffects s ?s1) = [Seek (intro_time (skipConfigRef s))]"
    using assms(1-5)
    by (simp add: onTimeUpdateSkip_def skipIntro_def skipOutro_def Let_def newEffects_def)
  have "\<forall>e \<in> set evs. fst e - lastSkipCheckRef ?s1 < 1500" using assms(6) l1 by simp
  from timeUpdates_limited[OF this] have "effects (timeUpdates evs ?s1) = effects ?s1"
    by simp
  then show ?thesis using a by (simp add: newEffects_def)
qed

theorem C7_witness:
  "enable (skipConfigRef (demoSession (Some 30) (Some 1200)))
   \<and> intro_time (skipConfigRef (demoSession (Some 30) (Some 1200))) = 90
   \<and> orZero (Some 30) < 90
   \<and> (1500::int) \<le> 1700000000000 - lastSkipCheckRef (demoSession (Some 30) (Some 1200))
   \<and> effects (timeUpdates
        [(1700000000250, \<lparr> currentTime = Some 30, duration = Some 1200 \<rparr>),
         (1700000001499, \<lparr> currentTime = Some 31, duration = Some 1200 \<rparr>)]
        (onTimeUpdateSkip 1700000000000 (demoSession (Some 30) (Some 1200))))
       = [Seek 90]"
  using C7_skip_intro_once_per_window
          [of "demoSession (Some 30) (Some 1200)"
              "\<lparr> currentTime = Some 30, duration = Some 1200 \<rparr>" 1700000000000
              "[(1700000000250, \<lparr> currentTime = Some 30, duration = Some 1200 \<rparr>),
                (1700000001499, \<lparr> currentTime = Some 31, duration = Some 1200 \<rparr>)]"]
  by (simp add: demoSession_def orZero_def onTimeUpdateSkip_def skipIntro_def skipOutro_def
        Let_def newEffects_def)


section \<open>Source selection: fallback and ranking\<close>


lemma floor_rat_numeral_divide [simp]:
  "\<lfloor>(numeral a :: rat) / numeral b\<rfloor> = numeral a div numeral b"
  using floor_divide_of_int_eq[of "numeral a" "numeral b", where ?'a = rat] by simp

declare probeBatches.simps [simp del]

lemma probeBatches_eq:
  "probeBatches probe sources start acc = acc @ map (probeSource probe) (drop start sources)"
proof (induction probe sources start acc rule: probeBatches.induct)
  case (1 probe sources start allResults)
  let ?b = "(length sources + 1) div 2"
  show ?case
  proof (cases "start < length sources")
    case True
    have split: "take ?b (drop start sources) @ drop (start + ?b) sources = drop start sources"
      by (metis add.commute append_take_drop_id drop_drop)
    have "probeBatches probe sources start allResults
            = probeBatches probe sources (start + ?b)
                (allResults @ map (probeSource probe) (take ?b (drop start sources)))"
      using True by (subst probeBatches.simps) (simp add: Let_def)
    also have "\<dots> = (allResults @ map (probeSource probe) (take ?b (drop start sources)))
                      @ map (probeSource probe) (drop (start + ?b) sources)"
      using "1.IH"[OF refl True] by simp
    also have "\<dots> = allResults @ map (probeSource probe) (drop start sources)"
      using split by (metis append.assoc map_append)
    finally show ?thesis .
  next
    case False
    then show ?thesis by (subst probeBatches.simps) (simp add: Let_def)
  qed
qed

lemma map_filter_id_map:
  "List.map_filter (\<lambda>r. r) (map f xs) = List.map_filter f xs"
  by (induction xs) (simp_all add: map_filter_simps split: option.splits)

lemma successful_eq:
  "List.map_filter (\<lambda>r. r) (probeBatches probe sources 0 []) = List.map_filter (probeSource probe) sources"
  by (simp add: probeBatches_eq map_filter_id_map) 

lemma map_filter_all_None:
  "(\<forall>x \<in> set xs. f x = None) \<Longrightarrow> List.map_filter f xs = []"
  by (induction xs) (simp_all add: map_filter_simps split: option.splits)

text \<open>
  Claim C5. For every non-empty list of candidates, if the probe of every candidate fails
  (no episode address, or the measurement rejects), the selection returns the first
  candidate; the model has no error outcome on this path, as the source catches every
  rejection of a probe.
\<close>

theorem C5_all_probes_fail_first_source:
  assumes "sources \<noteq> []" and "\<forall>s \<in> set sources. probeSource probe s = None"
  shows "preferBestSource probe sources = Selected (hd sources)"
proof (cases "length sources = 1")
  case True
  then show ?thesis by (cases sources) (simp_all add: preferBestSource_def)
next
  case False
  have "List.map_filter (\<lambda>r. r) (probeBatches probe sources 0 []) = []"
    using assms(2) by (simp add: successful_eq map_filter_all_None)
  then show ?thesis using False assms(1)
    by (cases sources) (simp_all add: preferBestSource_def Let_def)
qed





theorem C5_witness:
  "[demoSource ''a'' [ascii ''u1'', ascii ''u2''], demoSource ''b'' []] \<noteq> []
   \<and> probeSource failingProbe (demoSource ''a'' [ascii ''u1'', ascii ''u2'']) = None
   \<and> probeSource failingProbe (demoSource ''b'' []) = None
   \<and> preferBestSource failingProbe
        [demoSource ''a'' [ascii ''u1'', ascii ''u2''], demoSource ''b'' []]
       = Selected (demoSource ''a'' [ascii ''u1'', ascii ''u2''])"
  using C5_all_probes_fail_first_source
          [of "[demoSource ''a'' [ascii ''u1'', ascii ''u2''], demoSource ''b'' []]"
              failingProbe]
  by (simp add: probeSource_def failingProbe_def demoSource_def)


section \<open>The score\<close>






























section \<open>Recovery from fatal stream errors\<close>





section \<open>The default advertisement filter\<close>

lemma filterLines_index:
  assumes "k \<le> length lines"
  shows "filterLines (0 < k \<and> matchedAt type lines (k - 1)) type (drop k lines)
           = map (\<lambda>i. lines ! i) (filter (\<lambda>i. \<not> removedAt type lines i) [k..<length lines])"
  using assms
proof (induction "length lines - k" arbitrary: k)
  case 0
  then show ?case by simp
next
  case (Suc n)
  then have k: "k < length lines" by simp
  have d: "drop k lines = lines ! k # drop (Suc k) lines"
    using k by (simp add: Cons_nth_drop_Suc)
  have u: "[k..<length lines] = k # [Suc k..<length lines]"
    using k by (simp add: upt_conv_Cons)
  have IH: "filterLines (matchedAt type lines k) type (drop (Suc k) lines)
              = map (\<lambda>i. lines ! i) (filter (\<lambda>i. \<not> removedAt type lines i) [Suc k..<length lines])"
    using Suc.hyps(1)[of "Suc k"] Suc.hyps(2) k by simp
  have m: "matchedAt type lines k
             = (fillerHit type (lines ! k) \<and> \<not> (0 < k \<and> matchedAt type lines (k - 1)))"
    by (cases k) simp_all
  let ?nd = "0 < k \<and> matchedAt type lines (k - 1)"
  let ?line = "lines ! k"
  have r: "removedAt type lines k = (hasDiscontinuity ?line \<or> matchedAt type lines k \<or> ?nd)"
    by (simp add: removedAt_def)
  consider (skip) "?nd"
    | (disc) "\<not> ?nd" "hasDiscontinuity ?line"
    | (hit) "\<not> ?nd" "\<not> hasDiscontinuity ?line" "type = ascii ''ruyi'' \<and> isRuyiAd ?line"
    | (keep) "\<not> ?nd" "\<not> hasDiscontinuity ?line" "\<not> (type = ascii ''ruyi'' \<and> isRuyiAd ?line)"
    by blast
  then show ?case
  proof cases
    case skip
    then have mk: "\<not> matchedAt type lines k" using m by blast
    have rk: "removedAt type lines k" using r skip by blast
    have "filterLines ?nd type (drop k lines) = filterLines False type (drop (Suc k) lines)"
      using skip by (simp add: d)
    then show ?thesis using IH mk rk by (simp add: u)
  next
    case disc
    then have mk: "\<not> matchedAt type lines k" using m by (simp add: fillerHit_def)
    have rk: "removedAt type lines k" using r disc by blast
    have "filterLines ?nd type (drop k lines) = filterLines False type (drop (Suc k) lines)"
      using disc by (auto simp add: d)
    then show ?thesis using IH mk rk by (simp add: u)
  next
    case hit
    then have mk: "matchedAt type lines k" using m by (simp add: fillerHit_def)
    have rk: "removedAt type lines k" using r mk by blast
    have "filterLines ?nd type (drop k lines) = filterLines True type (drop (Suc k) lines)"
      using hit by (auto simp add: d)
    then show ?thesis using IH mk rk by (simp add: u)
  next
    case keep
    then have mk: "\<not> matchedAt type lines k" using m by (simp add: fillerHit_def)
    have rk: "\<not> removedAt type lines k" using r mk keep by blast
    have "filterLines ?nd type (drop k lines) = ?line # filterLines False type (drop (Suc k) lines)"
      using keep by (auto simp add: d)
    then show ?thesis using IH mk rk by (simp add: u)
  qed
qed

lemma filterLines_kept: "filterLines False type lines = keptLines type lines"
  using filterLines_index[of 0 lines type] by (simp add: keptLines_def)


lemma splitLines_nonempty: "splitLines s \<noteq> []"
  by (induction s) (simp_all split: list.splits)

lemma splitLines_no_newline: "l \<in> set (splitLines s) \<Longrightarrow> 10 \<notin> set l"
proof (induction s arbitrary: l)
  case Nil
  then show ?case by simp
next
  case (Cons c cs)
  show ?case
  proof (cases "c = 10")
    case True
    then show ?thesis using Cons by auto
  next
    case False
    obtain x xs where sp: "splitLines cs = x # xs"
      using splitLines_nonempty[of cs] by (cases "splitLines cs") auto
    then have "l = c # x \<or> l \<in> set xs" using Cons.prems False by simp
    then show ?thesis using Cons.IH sp False by auto
  qed
qed

lemma splitLines_plain: "10 \<notin> set l \<Longrightarrow> splitLines l = [l]"
  by (induction l) simp_all

lemma splitLines_append: "10 \<notin> set l \<Longrightarrow> splitLines (l @ 10 # r) = l # splitLines r"
  by (induction l) simp_all

lemma splitLines_joinLines:
  "ls \<noteq> [] \<Longrightarrow> \<forall>l \<in> set ls. 10 \<notin> set l \<Longrightarrow> splitLines (joinLines ls) = ls"
proof (induction ls rule: joinLines.induct)
  case 1
  then show ?case by simp
next
  case (2 l)
  then show ?case by (simp add: splitLines_plain)
next
  case (3 l v va)
  then show ?case by (simp add: splitLines_append)
qed

lemma filterLines_sound:
  "x \<in> set (filterLines nd type ls) \<Longrightarrow>
     x \<in> set ls \<and> \<not> hasDiscontinuity x \<and> \<not> (type = ascii ''ruyi'' \<and> isRuyiAd x)"
  by (induction nd type ls rule: filterLines.induct) (auto split: if_splits)

lemma filterLines_fixed:
  "\<forall>x \<in> set ls. \<not> hasDiscontinuity x \<and> \<not> (type = ascii ''ruyi'' \<and> isRuyiAd x)
     \<Longrightarrow> filterLines False type ls = ls"
  by (induction ls) auto

lemma defaultAdFilter_idem:
  "defaultAdFilter type (defaultAdFilter type text) = defaultAdFilter type text"
proof (cases "defaultAdFilter type text = []")
  case True
  then show ?thesis by (simp add: defaultAdFilter_def)
next
  case False
  let ?K = "filterLines False type (splitLines text)"
  have T: "defaultAdFilter type text = joinLines ?K"
    using False by (simp add: defaultAdFilter_def split: if_splits)
  have K: "?K \<noteq> []" using False T by auto
  have nl: "\<forall>l \<in> set ?K. 10 \<notin> set l"
    using filterLines_sound splitLines_no_newline by blast
  have sp: "splitLines (joinLines ?K) = ?K"
    using K nl by (rule splitLines_joinLines)
  have fx: "filterLines False type ?K = ?K"
    by (rule filterLines_fixed) (use filterLines_sound in blast)
  show ?thesis using False by (simp add: T defaultAdFilter_def sp fx)
qed

lemma defaultAdFilter_kept:
  "defaultAdFilter type text = joinLines (keptLines type (splitLines text))"
proof (cases "text = []")
  case True
  have "keptLines type [[]] = [[]]"
    by (simp add: keptLines_def removedAt_def fillerHit_def hasDiscontinuity_def isRuyiAd_def ascii_def)
  then show ?thesis using True by (simp add: defaultAdFilter_def)
next
  case False
  then show ?thesis by (simp add: defaultAdFilter_def filterLines_kept)
qed


lemma demo_lines_eval:
  "isRuyiAd fillerLine" "\<not> hasDiscontinuity fillerLine"
  "\<not> isRuyiAd segmentLine" "\<not> hasDiscontinuity segmentLine"
  by (simp_all add: isRuyiAd_def hasDiscontinuity_def fillerLine_def segmentLine_def ascii_def)

lemma demo_split: "splitLines demoManifest = [fillerLine, fillerLine, segmentLine]"
  unfolding demoManifest_def
  by (rule splitLines_joinLines) (simp_all add: fillerLine_def segmentLine_def ascii_def)

lemma demo_nonempty: "demoManifest \<noteq> []"
  by (simp add: demoManifest_def fillerLine_def ascii_def)


lemma demo_other: "defaultAdFilter (ascii ''other'') demoManifest = demoManifest"
proof -
  have "defaultAdFilter (ascii ''other'') demoManifest
          = joinLines [fillerLine, fillerLine, segmentLine]"
    by (simp add: defaultAdFilter_def demo_nonempty demo_split demo_lines_eval ascii_def)
  then show ?thesis by (simp only: demoManifest_def)
qed

text \<open>
  Claim C2 as stated fails on its second half. In \<open>demoManifest\<close>, for the provider
  \<open>ruyi\<close>, the second line is a filler marker line and the segment address follows it
  immediately, so the claim has all three lines removed; the filter keeps the address,
  because the second marker line was dropped as the line after the first and never
  looked at.
\<close>

theorem C2_counterexample:
  "filterAdsFromM3U8 None (ascii ''ruyi'') demoManifest = segmentLine
   \<and> spec_default_filter (ascii ''ruyi'') demoManifest = []
   \<and> segmentLine \<noteq> []"
proof -
  have "defaultAdFilter (ascii ''ruyi'') demoManifest = segmentLine"
    by (simp add: defaultAdFilter_def demo_nonempty demo_split demo_lines_eval)
  moreover have "spec_default_filter (ascii ''ruyi'') demoManifest = []"
    by (simp add: spec_default_filter_def demo_split Let_def spec_removed_def demo_lines_eval)
  moreover have "segmentLine \<noteq> []"
    by (simp add: segmentLine_def ascii_def)
  ultimately show ?thesis by (simp add: filterAdsFromM3U8_def)
qed

text \<open>
  Claim C2, amended. For every manifest without matched filler markers (the provider is
  not \<open>ruyi\<close>, or no line holds an allow-listed marker) filtering twice with the default
  rule gives what filtering once gives. And for every manifest the default rule removes
  exactly the lines that hold the discontinuity marker and, for the provider \<open>ruyi\<close>,
  each filler marker line that the scan reaches (one that does not hold the discontinuity
  marker and was not itself dropped as the line after a counted marker line) together with
  the line right after it; every other line passes unchanged, in the original order. The
  result is a new string; the input is not changed.
\<close>

theorem C2_default_filter_idempotent_and_exact:
  "((type \<noteq> ascii ''ruyi'' \<or> (\<forall>line \<in> set (splitLines text). \<not> isRuyiAd line))
      \<longrightarrow> filterAdsFromM3U8 None type (filterAdsFromM3U8 None type text)
            = filterAdsFromM3U8 None type text)
   \<and> filterAdsFromM3U8 None type text = joinLines (keptLines type (splitLines text))"
  by (simp add: filterAdsFromM3U8_def defaultAdFilter_idem defaultAdFilter_kept[symmetric])

theorem C2_witness:
  "ascii ''other'' \<noteq> ascii ''ruyi''
   \<and> filterAdsFromM3U8 None (ascii ''other'') (filterAdsFromM3U8 None (ascii ''other'') demoManifest)
       = filterAdsFromM3U8 None (ascii ''other'') demoManifest
   \<and> joinLines (keptLines (ascii ''other'') (splitLines demoManifest)) = demoManifest"
proof -
  have ne: "ascii ''other'' \<noteq> ascii ''ruyi''" by (simp add: ascii_def)
  have eq: "filterAdsFromM3U8 None (ascii ''other'') demoManifest = demoManifest"
    by (simp add: filterAdsFromM3U8_def demo_other)
  show ?thesis
    using C2_default_filter_idempotent_and_exact[of "ascii ''other''" demoManifest] ne eq
    by simp
qed

section \<open>Disabling the danmaku cache\<close>

lemmas parseInt_defs = parseInt_def digitVal_def isRadixDigit_def radixValue_def isSpace_def
  ascii_def Let_def

lemma parseInt_demo:
  "parseInt (ascii ''0'') (Some 10) = Some 0"
  "parseInt (ascii ''abc'') (Some 10) = None"
  "parseInt (ascii ''30'') None = Some 30"
  "parseInt (ascii ''undefined'') None = None"
  by (simp_all add: parseInt_defs)

text \<open>
  Claim C9. When the expire time resolves to \<open>0\<close>, which it does in the browser when the
  environment variable parses as the integer \<open>0\<close>, \<open>saveDanmakuToCache\<close> returns without
  writing and \<open>getDanmakuFromCache\<close> returns \<open>null\<close>, for every episode and every list of
  comments, and neither opens the database: the store and the count of openings are as
  before. A variable that is missing, empty or does not parse gives the default of 4320
  minutes.
\<close>

theorem C9_cache_disabled_at_zero:
  "(getDanmakuCacheExpireTime env = 0 \<longrightarrow>
      saveDanmakuToCache env openOk requestOk now episodeId comments db = (Inr (), db)
      \<and> getDanmakuFromCache env openOk requestOk now episodeId db = (Inr None, db))
   \<and> (windowDefined env \<and> envExpireMinutes env = Some v \<and> parseInt v (Some 10) = Some 0 \<longrightarrow>
        getDanmakuCacheExpireTime env = 0)
   \<and> (envExpireMinutes env = None \<or> envExpireMinutes env = Some []
        \<or> (envExpireMinutes env = Some v \<and> parseInt v (Some 10) = None) \<longrightarrow>
        getDanmakuCacheExpireTime env = 4320 * 60 * 1000)"
proof (intro conjI impI)
  assume "getDanmakuCacheExpireTime env = 0"
  then show "saveDanmakuToCache env openOk requestOk now episodeId comments db = (Inr (), db)"
    by (simp add: saveDanmakuToCache_def)
next
  assume "getDanmakuCacheExpireTime env = 0"
  then show "getDanmakuFromCache env openOk requestOk now episodeId db = (Inr None, db)"
    by (simp add: getDanmakuFromCache_def)
next
  assume "windowDefined env \<and> envExpireMinutes env = Some v \<and> parseInt v (Some 10) = Some 0"
  moreover have "parseInt [] (Some 10) = None" by (simp add: parseInt_defs)
  ultimately show "getDanmakuCacheExpireTime env = 0"
    by (auto simp add: getDanmakuCacheExpireTime_def)
next
  assume "envExpireMinutes env = None \<or> envExpireMinutes env = Some []
        \<or> (envExpireMinutes env = Some v \<and> parseInt v (Some 10) = None)"
  then show "getDanmakuCacheExpireTime env = 4320 * 60 * 1000"
    by (auto simp add: getDanmakuCacheExpireTime_def)
qed

theorem C9_witness:
  "parseInt (ascii ''0'') (Some 10) = Some 0
   \<and> getDanmakuCacheExpireTime (browserEnv ''0'') = 0
   \<and> saveDanmakuToCache (browserEnv ''0'') True True 1700000000500 7 [4, 5] demoDb = (Inr (), demoDb)
   \<and> getDanmakuFromCache (browserEnv ''0'') True True 1700000000500 7 demoDb = (Inr None, demoDb)
   \<and> parseInt (ascii ''abc'') (Some 10) = None
   \<and> getDanmakuCacheExpireTime (browserEnv ''abc'') = 259200000"
  using C9_cache_disabled_at_zero[of "browserEnv ''0''" True True 1700000000500 7 "[4, 5]" demoDb "ascii ''0''"]
    C9_cache_disabled_at_zero[of "browserEnv ''abc''" True True 1700000000500 7 "[4, 5]" demoDb "ascii ''abc''"]
  by (simp add: parseInt_demo browserEnv_def)

section \<open>The scan interval of the OpenList configuration\<close>








end
